theory Spec2Isabelle
  imports Complex_Main
begin

section \<open>Python strings\<close>

text \<open>
  A Python \<open>str\<close> is a sequence of Unicode code points. The program compares fragments
  with full-width punctuation and strips Unicode whitespace, so a string is modelled as
  the list of its code points; \<open>ascii\<close> embeds an ASCII literal.
\<close>

type_synonym pystr = "nat list"

definition ascii :: "string \<Rightarrow> pystr" where
  "ascii s = map of_char s"

text \<open>\<open>str.isspace\<close> on one code point (the whitespace table of CPython 3).\<close>

definition isspace :: "nat \<Rightarrow> bool" where
  "isspace c \<longleftrightarrow>
     (9 \<le> c \<and> c \<le> 13) \<or> (28 \<le> c \<and> c \<le> 32) \<or> c = 133 \<or> c = 160 \<or> c = 5760 \<or>
     (8192 \<le> c \<and> c \<le> 8202) \<or> c = 8232 \<or> c = 8233 \<or> c = 8239 \<or> c = 8287 \<or> c = 12288"

text \<open>\<open>s.strip()\<close> and \<open>s.strip(chars)\<close>: drop the matching characters at both ends.\<close>

definition strip_where :: "(nat \<Rightarrow> bool) \<Rightarrow> pystr \<Rightarrow> pystr" where
  "strip_where p s = rev (dropWhile p (rev (dropWhile p s)))"

definition strip :: "pystr \<Rightarrow> pystr" where
  "strip s = strip_where isspace s"

definition strip_quotes :: "pystr \<Rightarrow> pystr" where
  "strip_quotes s = strip_where (\<lambda>c. c = 34 \<or> c = 39) s"

section \<open>Data model\<close>

text \<open>
  A chat-history entry is the dictionary \<open>{"role", "content"}\<close>; a stored message has
  the \<open>"timestamp"\<close> key in addition. A conversation is the dictionary built by
  \<open>create_conversation\<close>; the keys the code tests for (\<open>"messages"\<close>, \<open>"likes"\<close>,
  \<open>"dislikes"\<close>) may be absent in an index read from disk, which is \<open>None\<close> here.
\<close>

record chat_message =
  role :: pystr
  content :: pystr

record message = chat_message +
  timestamp :: pystr

record conversation =
  conv_id :: pystr
  title :: pystr
  created_at :: pystr
  updated_at :: pystr
  messages :: "message list option"
  likes :: "int option"
  dislikes :: "int option"

text \<open>
  The \<open>ConversationManager\<close> object: the in-memory index, the active conversation id
  and the contents of \<open>index.json\<close> as last written by \<open>_save_conversations_index\<close>.
\<close>

record manager =
  conversations :: "pystr \<rightharpoonup> conversation"
  current_conversation_id :: "pystr option"
  index_file :: "pystr \<rightharpoonup> conversation"

definition user :: pystr where
  "user = ascii ''user''"

definition assistant :: pystr where
  "assistant = ascii ''assistant''"

text \<open>The default title, the three code points of the literal in \<open>create_conversation\<close>.\<close>

definition new_conversation_title :: pystr where
  "new_conversation_title = [26032, 23545, 35805]"

definition save_conversations_index :: "manager \<Rightarrow> manager" where
  "save_conversations_index m = m\<lparr>index_file := conversations m\<rparr>"

text \<open>\<open>conversation.get("messages", [])\<close>, \<open>.get("likes", 0)\<close>, \<open>.get("dislikes", 0)\<close>.\<close>

definition get_messages :: "conversation \<Rightarrow> message list" where
  "get_messages c = (case messages c of None \<Rightarrow> [] | Some ms \<Rightarrow> ms)"

definition get_likes :: "conversation \<Rightarrow> int" where
  "get_likes c = (case likes c of None \<Rightarrow> 0 | Some n \<Rightarrow> n)"

definition get_dislikes :: "conversation \<Rightarrow> int" where
  "get_dislikes c = (case dislikes c of None \<Rightarrow> 0 | Some n \<Rightarrow> n)"

section \<open>ConversationManager\<close>

text \<open>
  Every method takes the manager and returns its result with the updated manager.
  \<open>datetime.now()\<close> and \<open>time.time()\<close> are read from the environment: each reading is
  an argument of the method that takes it.
\<close>

definition create_conversation ::
  "manager \<Rightarrow> pystr option \<Rightarrow> pystr \<Rightarrow> pystr \<Rightarrow> pystr \<times> manager" where
  "create_conversation m title_arg conversation_id ts =
     (let t = (case title_arg of None \<Rightarrow> new_conversation_title
                 | Some x \<Rightarrow> if x = [] then new_conversation_title else x);
          c = \<lparr>conv_id = conversation_id, title = t, created_at = ts, updated_at = ts,
               messages = Some [], likes = Some 0, dislikes = Some 0\<rparr>;
          m1 = save_conversations_index
                 (m\<lparr>conversations := (conversations m)(conversation_id \<mapsto> c)\<rparr>)
      in (conversation_id, m1\<lparr>current_conversation_id := Some conversation_id\<rparr>))"

definition add_message ::
  "manager \<Rightarrow> pystr \<Rightarrow> pystr \<Rightarrow> pystr \<Rightarrow> pystr \<Rightarrow> pystr \<Rightarrow> bool \<times> manager" where
  "add_message m conversation_id rl cont ts_message ts_updated =
     (case conversations m conversation_id of
        None \<Rightarrow> (False, m)
      | Some c \<Rightarrow>
          let msgs = get_messages c;
              c1 = c\<lparr>messages := Some msgs\<rparr>;
              m1 = m\<lparr>conversations := (conversations m)(conversation_id \<mapsto> c1)\<rparr>
          in if cont = [] \<or> strip cont = [] then (False, m1)
             else if msgs \<noteq> [] \<and> role (last msgs) = rl \<and> content (last msgs) = cont
             then (True, m1)
             else
               let c2 = c1\<lparr>messages :=
                             Some (msgs @ [\<lparr>role = rl, content = cont, timestamp = ts_message\<rparr>]),
                           updated_at := ts_updated\<rparr>
               in (True, save_conversations_index
                           (m\<lparr>conversations := (conversations m)(conversation_id \<mapsto> c2)\<rparr>)))"

definition update_last_message ::
  "manager \<Rightarrow> pystr \<Rightarrow> pystr \<Rightarrow> pystr \<Rightarrow> pystr \<Rightarrow> bool \<times> manager" where
  "update_last_message m conversation_id cont ts_message ts_updated =
     (case conversations m conversation_id of
        None \<Rightarrow> (False, m)
      | Some c \<Rightarrow>
          let msgs = get_messages c
          in if msgs = [] then (False, m)
             else
               let lm = (last msgs)\<lparr>content := cont, timestamp := ts_message\<rparr>;
                   c1 = c\<lparr>messages := Some (butlast msgs @ [lm]), updated_at := ts_updated\<rparr>
               in (True, save_conversations_index
                           (m\<lparr>conversations := (conversations m)(conversation_id \<mapsto> c1)\<rparr>)))"


definition like_conversation :: "manager \<Rightarrow> pystr \<Rightarrow> pystr \<Rightarrow> bool \<times> manager" where
  "like_conversation m conversation_id ts_updated =
     (case conversations m conversation_id of
        None \<Rightarrow> (False, m)
      | Some c \<Rightarrow>
          let c1 = (case likes c of None \<Rightarrow> c\<lparr>likes := Some 0\<rparr> | Some _ \<Rightarrow> c);
              c2 = c1\<lparr>likes := Some (get_likes c1 + 1), updated_at := ts_updated\<rparr>
          in (True, save_conversations_index
                      (m\<lparr>conversations := (conversations m)(conversation_id \<mapsto> c2)\<rparr>)))"

definition dislike_conversation :: "manager \<Rightarrow> pystr \<Rightarrow> pystr \<Rightarrow> bool \<times> manager" where
  "dislike_conversation m conversation_id ts_updated =
     (case conversations m conversation_id of
        None \<Rightarrow> (False, m)
      | Some c \<Rightarrow>
          let c1 = (case dislikes c of None \<Rightarrow> c\<lparr>dislikes := Some 0\<rparr> | Some _ \<Rightarrow> c);
              c2 = c1\<lparr>dislikes := Some (get_dislikes c1 + 1), updated_at := ts_updated\<rparr>
          in (True, save_conversations_index
                      (m\<lparr>conversations := (conversations m)(conversation_id \<mapsto> c2)\<rparr>)))"

section \<open>Undo\<close>

text \<open>
  \<open>undo_last_message\<close> returns either the chat history it was given or a prefix of the
  snapshot stack in its first component; the two have different shapes, so the value
  handed to the chat display is a tagged union. The slice \<open>message_history[:k]\<close> with
  \<open>k \<ge> 1\<close> is \<open>take k\<close>.
\<close>

datatype chatbot_value =
  History "chat_message list"
| Snapshots "chat_message list list"

definition undo_last_message ::
  "chatbot_value \<Rightarrow> chat_message list list \<Rightarrow> int \<Rightarrow> chatbot_value \<times> int" where
  "undo_last_message chat_history message_history current_index =
     (if current_index > 0 then
        let new_index = current_index - 1;
            new_history = (if new_index \<ge> 0 then take (nat (new_index + 1)) message_history
                           else [])
        in (Snapshots new_history, new_index)
      else (chat_history, current_index))"

text \<open>Pressing undo \<open>n\<close> times: the returned pair is fed back each time.\<close>

fun undo_times ::
  "nat \<Rightarrow> chat_message list list \<Rightarrow> chatbot_value \<times> int \<Rightarrow> chatbot_value \<times> int" where
  "undo_times 0 message_history s = s"
| "undo_times (Suc n) message_history s =
     undo_times n message_history (undo_last_message (fst s) message_history (snd s))"

section \<open>Stream reconstructor\<close>

text \<open>
  One streamed chunk is what the code reads of it: the two attributes of
  \<open>chunk.choices[0].delta\<close>, each \<open>None\<close> when the attribute is missing or null. An
  event pairs the chunk with the reading of \<open>time.time()\<close> taken while its content is
  processed. Clock readings are exact numbers of seconds; the rounding of the
  floating-point subtraction is not modelled. The generator's \<open>yield\<close>s are the list of
  snapshots \<open>(reasoning, full_response)\<close> in order.
\<close>

record delta =
  reasoning_content :: "pystr option"
  delta_content :: "pystr option"

type_synonym event = "delta \<times> real"

type_synonym snapshot = "pystr \<times> pystr"

record stream_state =
  full_response :: pystr
  reasoning :: pystr
  buffer :: pystr
  last_yield_time :: real
  char_count :: nat

text \<open>The list literal of line 69: newline, three full-width marks, three ASCII marks.\<close>

definition punctuation :: "pystr list" where
  "punctuation = [[10], [12290], [65281], [65311], [46], [33], [63]]"

definition should_yield :: "real \<Rightarrow> real \<Rightarrow> nat \<Rightarrow> pystr \<Rightarrow> bool" where
  "should_yield current_time last_yield chars cont \<longleftrightarrow>
     current_time - last_yield \<ge> 3 / 100 \<or> chars \<ge> 5 \<or> cont \<in> set punctuation"

definition process_reasoning :: "stream_state \<Rightarrow> delta \<Rightarrow> snapshot list \<times> stream_state" where
  "process_reasoning s d =
     (case reasoning_content d of
        None \<Rightarrow> ([], s)
      | Some r \<Rightarrow>
          let s1 = s\<lparr>reasoning := reasoning s @ r\<rparr>
          in ([(reasoning s1, full_response s1)], s1))"

definition process_content ::
  "stream_state \<Rightarrow> delta \<Rightarrow> real \<Rightarrow> snapshot list \<times> stream_state" where
  "process_content s d current_time =
     (case delta_content d of
        None \<Rightarrow> ([], s)
      | Some c \<Rightarrow>
          let s1 = s\<lparr>full_response := full_response s @ c, buffer := buffer s @ c,
                     char_count := char_count s + length c\<rparr>
          in if should_yield current_time (last_yield_time s1) (char_count s1) c
             then ([(reasoning s1, full_response s1)],
                   s1\<lparr>last_yield_time := current_time, char_count := 0, buffer := []\<rparr>)
             else ([], s1))"

definition process_chunk :: "stream_state \<Rightarrow> event \<Rightarrow> snapshot list \<times> stream_state" where
  "process_chunk s e =
     (let (ys1, s1) = process_reasoning s (fst e);
          (ys2, s2) = process_content s1 (fst e) (snd e)
      in (ys1 @ ys2, s2))"

fun stream_loop :: "stream_state \<Rightarrow> event list \<Rightarrow> snapshot list \<times> stream_state" where
  "stream_loop s [] = ([], s)"
| "stream_loop s (e # es) =
     (let (ys, s1) = process_chunk s e;
          (zs, s2) = stream_loop s1 es
      in (ys @ zs, s2))"

definition initial_state :: "real \<Rightarrow> stream_state" where
  "initial_state start_time =
     \<lparr>full_response = [], reasoning = [], buffer = [], last_yield_time = start_time,
      char_count = 0\<rparr>"

definition final_flush :: "stream_state \<Rightarrow> snapshot list" where
  "final_flush s = (if buffer s \<noteq> [] then [(reasoning s, full_response s)] else [])"

text \<open>The snapshots yielded, and the value returned when the generator ends.\<close>

definition process_stream_response :: "real \<Rightarrow> event list \<Rightarrow> snapshot list \<times> snapshot" where
  "process_stream_response start_time stream =
     (let (ys, s) = stream_loop (initial_state start_time) stream
      in (ys @ final_flush s, (reasoning s, full_response s)))"

text \<open>The fragments a stream carries, in arrival order.\<close>

definition content_fragments :: "event list \<Rightarrow> pystr list" where
  "content_fragments stream = List.map_filter (\<lambda>e. delta_content (fst e)) stream"

definition reasoning_fragments :: "event list \<Rightarrow> pystr list" where
  "reasoning_fragments stream = List.map_filter (\<lambda>e. reasoning_content (fst e)) stream"

text \<open>
  The consumer loop of \<open>generate_response\<close> and of the callbacks: the last non-empty
  content seen, starting from the empty string.
\<close>

definition final_content_of :: "snapshot list \<Rightarrow> pystr" where
  "final_content_of snaps = foldl (\<lambda>acc sn. if snd sn \<noteq> [] then snd sn else acc) [] snaps"

section \<open>Transport\<close>

text \<open>
  \<open>client.chat.completions.create\<close> either raises, which is \<open>Inl\<close> of the exception's
  text, or returns a stream (its events and the clock reading at which the
  reconstructor starts) or a complete response (per choice, the message's content and
  reasoning, \<open>None\<close> when null or missing). The \<open>n\<close>-th call of one operation is the
  argument \<open>n\<close>. A caller handed the wrong kind of result fails on an attribute it
  does not have. A null content or reasoning of a complete response is read as the
  empty string: the code only passes it on and tests it for being false.
\<close>

record request =
  req_messages :: "chat_message list"
  req_model :: pystr
  req_stream :: bool

record choice =
  message_content :: "pystr option"
  message_reasoning :: "pystr option"

datatype completion =
  Stream real "event list"
| Response "choice list"

type_synonym transport = "nat \<Rightarrow> request \<Rightarrow> pystr + completion"

datatype py_error = KeyError | AttributeError | ValueError | UnboundLocalError

definition process_non_stream_response :: "choice list \<Rightarrow> snapshot" where
  "process_non_stream_response choices =
     (case choices of
        [] \<Rightarrow> ([], [])
      | c # _ \<Rightarrow>
          (case message_reasoning c of None \<Rightarrow> [] | Some r \<Rightarrow> r,
           case message_content c of None \<Rightarrow> [] | Some x \<Rightarrow> x))"

section \<open>Title generation\<close>

definition title_system_prompt :: pystr where
  "title_system_prompt =
     [20320, 26159, 19968, 20010, 19987, 19994, 30340, 23545, 35805, 26631, 39064, 29983,
      25104, 22120, 12290, 35831, 26681, 25454, 29992, 25143, 21644, 21161, 25163, 30340,
      23545, 35805, 20869, 23481, 65292, 29983, 25104, 19968, 20010, 31616, 27905, 12289,
      20934, 30830, 30340, 26631, 39064, 65288, 19981, 36229, 36807, 50, 48, 20010, 23383,
      31526, 65289, 12290, 26631, 39064, 24212, 35813, 27010, 25324, 23545, 35805, 30340,
      20027, 35201, 20027, 39064, 25110, 26680, 24515, 38382, 39064, 12290, 21482, 36820,
      22238, 26631, 39064, 65292, 19981, 35201, 20854, 20182, 20869, 23481, 12290]"

definition title_user_prefix :: pystr where
  "title_user_prefix =
     [35831, 20026, 20197, 19979, 23545, 35805, 29983, 25104, 26631, 39064, 65306, 10, 10]"

definition role_label :: "pystr \<Rightarrow> pystr" where
  "role_label r = (if r = user then [29992, 25143] else [21161, 25163])"

definition conversation_text :: "message list \<Rightarrow> pystr" where
  "conversation_text msgs =
     concat (map (\<lambda>msg. role_label (role msg) @ ascii '': '' @ content msg @ [10])
                 (drop (length msgs - 6) msgs))"

text \<open>
  Whatever goes wrong inside the \<open>try\<close> (the request raising, no choice, a null
  content) is caught there and the default title is returned.
\<close>

definition generate_conversation_title ::
  "message list \<Rightarrow> pystr \<Rightarrow> (request \<Rightarrow> pystr + completion) \<Rightarrow> pystr" where
  "generate_conversation_title msgs model create =
     (if msgs = [] then new_conversation_title
      else
        let title_messages =
              [\<lparr>role = ascii ''system'', content = title_system_prompt\<rparr>,
               \<lparr>role = user, content = title_user_prefix @ conversation_text msgs\<rparr>]
        in case create \<lparr>req_messages = title_messages, req_model = model, req_stream = False\<rparr> of
             Inl e \<Rightarrow> new_conversation_title
           | Inr (Stream t es) \<Rightarrow> new_conversation_title
           | Inr (Response []) \<Rightarrow> new_conversation_title
           | Inr (Response (c # cs)) \<Rightarrow>
               (case message_content c of
                  None \<Rightarrow> new_conversation_title
                | Some x \<Rightarrow>
                    let t = strip_quotes (strip x)
                    in if t \<noteq> [] then t else new_conversation_title))"

text \<open>
  \<open>generate_conversation_title\<close> never raises, so the \<open>except\<close> branch of
  \<open>update_title_with_ai\<close> has no counterpart here.
\<close>

definition update_title_with_ai ::
  "manager \<Rightarrow> pystr \<Rightarrow> pystr \<Rightarrow> (request \<Rightarrow> pystr + completion) \<Rightarrow> bool \<times> manager" where
  "update_title_with_ai m conversation_id model create =
     (case conversations m conversation_id of
        None \<Rightarrow> (False, m)
      | Some c \<Rightarrow>
          let msgs = get_messages c
          in if length msgs \<ge> 2 then
               let new_title = generate_conversation_title msgs model create
               in (True, save_conversations_index
                           (m\<lparr>conversations :=
                                 (conversations m)(conversation_id \<mapsto> c\<lparr>title := new_title\<rparr>)\<rparr>))
             else (False, m))"

section \<open>generate\_response\<close>

text \<open>
  What the operation reads from outside: the prompt templates returned by
  \<open>load_prompts\<close>, the transport, the id \<open>str(int(time.time()))\<close> a new conversation
  would get, and the readings of \<open>datetime.now()\<close>, one per place that reads the clock.
\<close>

record prompt =
  system :: pystr
  description :: pystr

record environment =
  load_prompts :: "pystr \<rightharpoonup> prompt"
  create :: transport
  new_id :: pystr
  now :: "nat \<Rightarrow> pystr"

definition max_retries :: nat where
  "max_retries = 3"

text \<open>
  The text saved and shown once every attempt has failed: a fixed prefix, the text of
  the last exception, and the four numbered hints.
\<close>

definition final_error_prefix :: pystr where
  "final_error_prefix = [65, 80, 73, 35843, 29992, 26368, 32456, 22833, 36133, 58, 32]"

definition hint_network :: pystr where
  "hint_network = [10, 49, 46, 32, 26816, 26597, 32593, 32476, 36830, 25509]"

definition hint_api_key :: pystr where
  "hint_api_key = [10, 50, 46, 32, 30830, 35748, 65, 80, 73, 23494, 38053, 26377, 25928]"

definition hint_vpn :: pystr where
  "hint_vpn = [10, 51, 46, 32, 23581, 35797, 20351, 29992, 86, 80, 78]"

definition hint_retry_later :: pystr where
  "hint_retry_later = [10, 52, 46, 32, 31245, 21518, 37325, 35797]"

definition solutions_header :: pystr where
  "solutions_header = [10, 10, 21487, 33021, 30340, 35299, 20915, 26041, 26696, 58]"

definition final_error_msg :: "pystr \<Rightarrow> pystr" where
  "final_error_msg e =
     final_error_prefix @ e @ solutions_header @ hint_network @ hint_api_key @ hint_vpn @
     hint_retry_later"

text \<open>
  The \<open>while\<close> loop of lines 381 to 404. \<open>attempt n\<close> is the outcome of the call made
  when \<open>retry_count\<close> is \<open>n\<close>. The loop ends with the handle (\<open>break\<close>), with the text of
  the last exception once \<open>retry_count\<close> reaches the maximum, or by its condition
  failing, which leaves \<open>stream\<close> unbound. The sleeps are recorded in seconds.
\<close>

datatype 'a loop_exit = Succeeded 'a | Exhausted pystr | Unbound

record 'a retry_result =
  outcome :: "'a loop_exit"
  attempts :: nat
  sleeps :: "nat list"

function retry_loop ::
  "(nat \<Rightarrow> pystr + 'a) \<Rightarrow> nat \<Rightarrow> nat \<Rightarrow> nat list \<Rightarrow> 'a retry_result" where
  "retry_loop attempt retry_count made slept =
     (if retry_count < max_retries then
        (case attempt retry_count of
           Inr handle \<Rightarrow> \<lparr>outcome = Succeeded handle, attempts = made + 1, sleeps = slept\<rparr>
         | Inl e \<Rightarrow>
             let retry_count1 = retry_count + 1
             in if retry_count1 \<ge> max_retries
                then \<lparr>outcome = Exhausted e, attempts = made + 1, sleeps = slept\<rparr>
                else retry_loop attempt retry_count1 (made + 1) (slept @ [retry_count1 * 2]))
      else \<lparr>outcome = Unbound, attempts = made, sleeps = slept\<rparr>)"
  by pat_completeness auto
termination
  by (relation "measure (\<lambda>(attempt, retry_count, made, slept). max_retries - retry_count)")
     auto

text \<open>\<open>if not conversation_manager.current_conversation_id\<close>: \<open>None\<close> and \<open>""\<close> are false.\<close>

definition active_id :: "manager \<Rightarrow> pystr option" where
  "active_id m =
     (case current_conversation_id m of
        None \<Rightarrow> None
      | Some i \<Rightarrow> if i = [] then None else Some i)"

definition build_messages :: "pystr \<Rightarrow> (pystr \<times> pystr) list \<Rightarrow> pystr \<Rightarrow> chat_message list" where
  "build_messages system_prompt history msg =
     [\<lparr>role = ascii ''system'', content = system_prompt\<rparr>] @
     concat (map (\<lambda>(human, reply). [\<lparr>role = user, content = human\<rparr>,
                                     \<lparr>role = assistant, content = reply\<rparr>]) history) @
     [\<lparr>role = user, content = msg\<rparr>]"

text \<open>
  The arguments of the request, lines 362 to 388: the system prompt of the chosen
  template, or of the default one when the key is unknown, the history and the message.
\<close>

definition build_request ::
  "environment \<Rightarrow> prompt \<Rightarrow> pystr \<Rightarrow> (pystr \<times> pystr) list \<Rightarrow> bool \<Rightarrow> pystr \<Rightarrow> pystr \<Rightarrow>
   request" where
  "build_request env default_prompt msg history stream_mode model prompt_template =
     (let system_prompt = system (case load_prompts env prompt_template of
                                    None \<Rightarrow> default_prompt | Some p \<Rightarrow> p)
      in \<lparr>req_messages = build_messages system_prompt history msg,
          req_model = model, req_stream = stream_mode\<rparr>)"

text \<open>
  Lines 355 and 356: a conversation is created when none is current; the pair is the
  current id afterwards and the manager.
\<close>

definition ensure_conversation :: "environment \<Rightarrow> manager \<Rightarrow> pystr \<times> manager" where
  "ensure_conversation env m =
     (case active_id m of
        None \<Rightarrow> create_conversation m None (new_id env) (now env 0)
      | Some i \<Rightarrow> (i, m))"

text \<open>
  The result of running the generator to its end: the tuples yielded, for each of them
  the manager as it is when that tuple is handed to the caller, the manager at the end,
  the attempts made and the sleeps taken, and the exception that ended it, if one did.
\<close>

record response_result =
  yields :: "snapshot list"
  stores_at_yield :: "manager list"
  manager_after :: manager
  attempts_made :: nat
  backoff_sleeps :: "nat list"
  raised :: "py_error option"

definition generate_response ::
  "environment \<Rightarrow> pystr \<Rightarrow> (pystr \<times> pystr) list \<Rightarrow> manager \<Rightarrow> bool \<Rightarrow> pystr \<Rightarrow> pystr \<Rightarrow>
   response_result" where
  "generate_response env msg history m stream_mode model prompt_template =
     (let (cid, m0) = ensure_conversation env m;
          m1 = snd (add_message m0 cid user msg (now env 12) (now env 2))
      in case load_prompts env (ascii ''default'') of
           None \<Rightarrow> \<lparr>yields = [], stores_at_yield = [], manager_after = m1, attempts_made = 0,
                     backoff_sleeps = [], raised = Some KeyError\<rparr>
         | Some default_prompt \<Rightarrow>
             let req = build_request env default_prompt msg history stream_mode model
                         prompt_template;
                 r = retry_loop (\<lambda>n. create env n req) 0 0 []
             in case outcome r of
                  Exhausted e \<Rightarrow>
                    let m2 = snd (add_message m1 cid assistant (final_error_msg e)
                                    (now env 3) (now env 4))
                    in \<lparr>yields = [([], final_error_msg e)], stores_at_yield = [m2],
                        manager_after = m2, attempts_made = attempts r,
                        backoff_sleeps = sleeps r, raised = None\<rparr>
                | Unbound \<Rightarrow>
                    \<lparr>yields = [], stores_at_yield = [], manager_after = m1,
                     attempts_made = attempts r, backoff_sleeps = sleeps r,
                     raised = Some UnboundLocalError\<rparr>
                | Succeeded (Stream start_time events) \<Rightarrow>
                    if stream_mode then
                      let snaps = fst (process_stream_response start_time events);
                          final_content = final_content_of snaps;
                          m2 = (if final_content \<noteq> []
                                then snd (add_message m1 cid assistant final_content
                                            (now env 5) (now env 6))
                                else m1)
                      in \<lparr>yields = snaps, stores_at_yield = map (\<lambda>sn. m1) snaps,
                          manager_after = m2, attempts_made = attempts r,
                          backoff_sleeps = sleeps r, raised = None\<rparr>
                    else \<lparr>yields = [], stores_at_yield = [], manager_after = m1,
                          attempts_made = attempts r, backoff_sleeps = sleeps r,
                          raised = Some AttributeError\<rparr>
                | Succeeded (Response choices) \<Rightarrow>
                    if stream_mode then
                      \<lparr>yields = [], stores_at_yield = [], manager_after = m1,
                       attempts_made = attempts r, backoff_sleeps = sleeps r,
                       raised = Some AttributeError\<rparr>
                    else
                      let (reasoning_text, content_text) = process_non_stream_response choices;
                          m2 = snd (add_message m1 cid assistant content_text
                                      (now env 7) (now env 8))
                      in \<lparr>yields = [(reasoning_text, content_text)], stores_at_yield = [m2],
                          manager_after = m2, attempts_made = attempts r,
                          backoff_sleeps = sleeps r, raised = None\<rparr>)"

section \<open>Retry\<close>





text \<open>
  The result of running \<open>retry_last_message\<close> to its end: the chat history of each tuple
  it yields, the manager, and the exception that ended it, if one did. Without
  streaming the callback unpacks the generator returned by \<open>generate_response\<close> into
  two names; that generator yields one tuple, so after it has run the unpacking raises
  \<open>ValueError\<close>.
\<close>

record retry_outcome =
  shown :: "chat_message list list"
  store :: manager
  failure :: "py_error option"


text \<open>How many stored messages of a conversation have the user role.\<close>

definition stored_messages :: "manager \<Rightarrow> pystr \<Rightarrow> message list" where
  "stored_messages m conversation_id =
     (case conversations m conversation_id of None \<Rightarrow> [] | Some c \<Rightarrow> get_messages c)"


definition blank :: "pystr \<Rightarrow> bool" where
  "blank s \<longleftrightarrow> list_all isspace s"

text \<open>
  The test of line 191: the list is not empty and its last message has this role and
  this content.
\<close>

definition repeats_last :: "message list \<Rightarrow> pystr \<Rightarrow> pystr \<Rightarrow> bool" where
  "repeats_last msgs rl cont \<longleftrightarrow>
     msgs \<noteq> [] \<and> role (last msgs) = rl \<and> content (last msgs) = cont"

section \<open>Concrete stores\<close>

text \<open>A store with one conversation, used to evaluate the operations.\<close>

definition demo_id :: pystr where
  "demo_id = ascii ''1700000000''"

definition demo_time :: pystr where
  "demo_time = ascii ''2024-01-01 00:00:00''"

definition later_time :: pystr where
  "later_time = ascii ''2024-01-01 00:00:05''"

definition demo_conversation :: "message list \<Rightarrow> conversation" where
  "demo_conversation msgs =
     \<lparr>conv_id = demo_id, title = ascii ''My chat'', created_at = demo_time,
      updated_at = demo_time, messages = Some msgs, likes = Some 0, dislikes = Some 0\<rparr>"

definition demo_manager :: "message list \<Rightarrow> manager" where
  "demo_manager msgs =
     \<lparr>conversations = [demo_id \<mapsto> demo_conversation msgs],
      current_conversation_id = Some demo_id,
      index_file = [demo_id \<mapsto> demo_conversation msgs]\<rparr>"

definition user_says :: "string \<Rightarrow> message" where
  "user_says s = \<lparr>role = user, content = ascii s, timestamp = demo_time\<rparr>"

definition assistant_says :: "string \<Rightarrow> message" where
  "assistant_says s = \<lparr>role = assistant, content = ascii s, timestamp = demo_time\<rparr>"

text \<open>The messages stored for the conversation that is the current one.\<close>

definition current_messages :: "manager \<Rightarrow> message list" where
  "current_messages m =
     (case current_conversation_id m of None \<Rightarrow> [] | Some i \<Rightarrow> stored_messages m i)"

text \<open>
  An environment whose transport raises a timeout on the first \<open>k\<close> calls and then
  returns a stream with the given events.
\<close>

definition demo_prompts :: "pystr \<rightharpoonup> prompt" where
  "demo_prompts =
     [ascii ''default'' \<mapsto> \<lparr>system = ascii ''You are a helpful assistant.'',
                            description = ascii ''default''\<rparr>]"

definition flaky :: "nat \<Rightarrow> event list \<Rightarrow> transport" where
  "flaky k events n r = (if n < k then Inl (ascii ''timeout'') else Inr (Stream 0 events))"

definition demo_env :: "nat \<Rightarrow> event list \<Rightarrow> environment" where
  "demo_env k events =
     \<lparr>load_prompts = demo_prompts, create = flaky k events, new_id = demo_id,
      now = (\<lambda>n. later_time)\<rparr>"


text \<open>A transport that always raises, and chat entries.\<close>

definition always_failing :: "request \<Rightarrow> pystr + completion" where
  "always_failing r = Inl (ascii ''timeout'')"


definition demo_model :: pystr where
  "demo_model = ascii ''deepseek-chat''"

definition demo_request :: request where
  "demo_request = \<lparr>req_messages = [], req_model = demo_model, req_stream = True\<rparr>"

section \<open>Stream reconstructor: traces\<close>

text \<open>
  What the loop maintains about the snapshots yielded so far: once nothing is buffered,
  the last non-empty content yielded, and the content of the last snapshot if there is
  one, is the whole response; and a non-empty buffer means a non-empty response.
\<close>

definition settled :: "snapshot list \<Rightarrow> stream_state \<Rightarrow> bool" where
  "settled ys s \<longleftrightarrow>
     (buffer s = [] \<longrightarrow> final_content_of ys = full_response s) \<and>
     (full_response s = [] \<longrightarrow> final_content_of ys = []) \<and>
     (buffer s = [] \<longrightarrow> ys \<noteq> [] \<longrightarrow> snd (last ys) = full_response s) \<and>
     (buffer s \<noteq> [] \<longrightarrow> full_response s \<noteq> [])"

text \<open>
  The emission rule read along a stream: the clock reading of the last emission caused
  by a content fragment (the start time before the first one) and the characters
  received since then. A fragment causes an emission when 30 ms have passed since that
  reading, or the characters received since then, this fragment included, are five or
  more, or the fragment is one of the seven marks. \<open>ends_with_punctuation\<close> is the
  wording of the specification for the third condition.
\<close>

fun since_last_emission :: "real \<Rightarrow> pystr \<Rightarrow> event list \<Rightarrow> real \<times> pystr" where
  "since_last_emission t pending [] = (t, pending)"
| "since_last_emission t pending (e # es) =
     (case delta_content (fst e) of
        None \<Rightarrow> since_last_emission t pending es
      | Some c \<Rightarrow>
          if snd e - t \<ge> 3 / 100 \<or> length (pending @ c) \<ge> 5 \<or> c \<in> set punctuation
          then since_last_emission (snd e) [] es
          else since_last_emission t (pending @ c) es)"

definition ends_with_punctuation :: "pystr \<Rightarrow> bool" where
  "ends_with_punctuation c \<longleftrightarrow> c \<noteq> [] \<and> [last c] \<in> set punctuation"

text \<open>The scenario of three fragments arriving 50 ms apart, and one quick fragment.\<close>

definition fragment :: "string \<Rightarrow> real \<Rightarrow> event" where
  "fragment s t = (\<lparr>reasoning_content = None, delta_content = Some (ascii s)\<rparr>, t)"

definition spaced_stream :: "event list" where
  "spaced_stream = [fragment ''H'' (5 / 100), fragment ''i'' (10 / 100),
                    fragment '' there.'' (15 / 100)]"




text \<open>
  A store whose conversation already ends with the error text of a timeout, a store and
  chat history holding one full turn, and an environment whose first request returns a
  stream that carries the reply \<open>ok\<close> one second after the start; \<open>regenerated\<close> is the
  call the retry of that turn makes.
\<close>

definition failed_store :: manager where
  "failed_store =
     demo_manager [user_says ''hi'',
                   \<lparr>role = assistant, content = final_error_msg (ascii ''timeout''),
                    timestamp = demo_time\<rparr>]"





section \<open>Strings: basic facts\<close>

lemma user_neq_assistant: "user \<noteq> assistant"
  by (simp add: user_def assistant_def ascii_def)

lemma all_dropWhile: "(\<forall>x \<in> set (dropWhile p s). p x) \<longleftrightarrow> (\<forall>x \<in> set s. p x)"
proof
  assume a: "\<forall>x \<in> set (dropWhile p s). p x"
  have "set s = set (takeWhile p s) \<union> set (dropWhile p s)"
    by (metis set_append takeWhile_dropWhile_id)
  with a show "\<forall>x \<in> set s. p x"
    by (auto dest: set_takeWhileD)
next
  assume "\<forall>x \<in> set s. p x"
  then show "\<forall>x \<in> set (dropWhile p s). p x"
    by (auto dest: set_dropWhileD)
qed

lemma strip_where_Nil_iff: "strip_where p s = [] \<longleftrightarrow> (\<forall>c \<in> set s. p c)"
  by (simp add: strip_where_def dropWhile_eq_Nil_conv all_dropWhile)

text \<open>The guard of line 186 holds exactly for the empty and the whitespace-only strings.\<close>

lemma strip_blank: "(cont = [] \<or> strip cont = []) \<longleftrightarrow> blank cont"
  by (auto simp: strip_def blank_def strip_where_Nil_iff list_all_iff)

section \<open>Undo at the boundary\<close>

text \<open>
  Claim C9. With the current index at 0, the oldest entry, undo pressed any number of
  times returns the chat history it was given and the index 0. The function receives
  and returns neither the manager nor a transport, so it touches no store and no network.
\<close>

theorem undo_idempotent_at_boundary:
  "undo_times n message_history (chat_history, 0) = (chat_history, 0)"
  by (induction n) (simp_all add: undo_last_message_def)

section \<open>Likes and dislikes\<close>

text \<open>
  Claim C10. For an id in the store, \<open>like_conversation\<close> returns true and replaces that
  conversation by itself with the likes counter one higher and \<open>updated_at\<close> set to the
  clock reading, \<open>dislike_conversation\<close> does the same with the dislikes counter; title,
  messages, \<open>created_at\<close> and the other counter keep their values, every other
  conversation and the active id are untouched, and the index file is rewritten to the
  new index. For an unknown id both return false and the manager is unchanged.
\<close>

theorem like_dislike_frame:
  "(conversations m cid = None \<longrightarrow>
      like_conversation m cid ts = (False, m) \<and> dislike_conversation m cid ts = (False, m)) \<and>
   (\<forall>c. conversations m cid = Some c \<longrightarrow>
      like_conversation m cid ts =
        (True, m\<lparr>conversations :=
                   (conversations m)(cid \<mapsto> c\<lparr>likes := Some (get_likes c + 1), updated_at := ts\<rparr>),
                 index_file :=
                   (conversations m)(cid \<mapsto> c\<lparr>likes := Some (get_likes c + 1), updated_at := ts\<rparr>)\<rparr>) \<and>
      dislike_conversation m cid ts =
        (True, m\<lparr>conversations :=
                   (conversations m)(cid \<mapsto> c\<lparr>dislikes := Some (get_dislikes c + 1),
                                               updated_at := ts\<rparr>),
                 index_file :=
                   (conversations m)(cid \<mapsto> c\<lparr>dislikes := Some (get_dislikes c + 1),
                                               updated_at := ts\<rparr>)\<rparr>))"
  by (auto simp: like_conversation_def dislike_conversation_def save_conversations_index_def
        get_likes_def get_dislikes_def Let_def split: option.splits)

theorem like_dislike_frame_witness:
  "conversations (demo_manager []) demo_id = Some (demo_conversation []) \<and>
   conversations (demo_manager []) [] = None \<and>
   fst (like_conversation (demo_manager []) demo_id later_time) \<and>
   map_option get_likes
     (conversations (snd (like_conversation (demo_manager []) demo_id later_time)) demo_id) = Some 1 \<and>
   map_option get_dislikes
     (conversations (snd (dislike_conversation (demo_manager []) demo_id later_time)) demo_id) = Some 1 \<and>
   like_conversation (demo_manager []) [] later_time = (False, demo_manager [])"
proof -
  have present: "conversations (demo_manager []) demo_id = Some (demo_conversation [])"
    by (simp add: demo_manager_def)
  have absent: "conversations (demo_manager []) [] = None"
    by (simp add: demo_manager_def demo_id_def ascii_def)
  have zero: "get_likes (demo_conversation []) = 0" "get_dislikes (demo_conversation []) = 0"
    by (simp_all add: get_likes_def get_dislikes_def demo_conversation_def)
  from like_dislike_frame [of "demo_manager []" demo_id later_time] present
  have "like_conversation (demo_manager []) demo_id later_time =
      (True, (demo_manager [])\<lparr>conversations :=
                   (conversations (demo_manager []))(demo_id \<mapsto>
                      (demo_conversation [])\<lparr>likes := Some (get_likes (demo_conversation []) + 1),
                                              updated_at := later_time\<rparr>),
                 index_file :=
                   (conversations (demo_manager []))(demo_id \<mapsto>
                      (demo_conversation [])\<lparr>likes := Some (get_likes (demo_conversation []) + 1),
                                              updated_at := later_time\<rparr>)\<rparr>)"
    and "dislike_conversation (demo_manager []) demo_id later_time =
      (True, (demo_manager [])\<lparr>conversations :=
                   (conversations (demo_manager []))(demo_id \<mapsto>
                      (demo_conversation [])\<lparr>dislikes := Some (get_dislikes (demo_conversation []) + 1),
                                              updated_at := later_time\<rparr>),
                 index_file :=
                   (conversations (demo_manager []))(demo_id \<mapsto>
                      (demo_conversation [])\<lparr>dislikes := Some (get_dislikes (demo_conversation []) + 1),
                                              updated_at := later_time\<rparr>)\<rparr>)"
    by blast+
  moreover from like_dislike_frame [of "demo_manager []" "[]" later_time] absent
  have "like_conversation (demo_manager []) [] later_time = (False, demo_manager [])"
    by blast
  ultimately show ?thesis
    using present absent zero by (simp add: get_likes_def get_dislikes_def)
qed

section \<open>Appending messages\<close>

lemma add_message_duplicate:
  assumes "conversations m cid = Some c" "\<not> blank cont" "repeats_last (get_messages c) rl cont"
  shows "add_message m cid rl cont tm tu =
     (True, m\<lparr>conversations := (conversations m)(cid \<mapsto> c\<lparr>messages := Some (get_messages c)\<rparr>)\<rparr>)"
  using assms strip_blank[of cont] by (simp add: add_message_def Let_def repeats_last_def)

lemma add_message_fresh:
  assumes "conversations m cid = Some c" "\<not> blank cont"
    "\<not> repeats_last (get_messages c) rl cont"
  shows "add_message m cid rl cont tm tu =
     (True, save_conversations_index (m\<lparr>conversations := (conversations m)(cid \<mapsto>
        c\<lparr>messages := Some (get_messages c @ [\<lparr>role = rl, content = cont, timestamp = tm\<rparr>]),
          updated_at := tu\<rparr>)\<rparr>))"
  using assms strip_blank[of cont] by (auto simp add: add_message_def Let_def repeats_last_def)

text \<open>
  An append of an empty or whitespace-only string returns false, stores nothing and
  writes nothing to the index file.
\<close>

lemma add_message_blank:
  assumes "blank cont"
  shows "fst (add_message m cid rl cont tm tu) = False \<and>
         stored_messages (snd (add_message m cid rl cont tm tu)) cid = stored_messages m cid \<and>
         index_file (snd (add_message m cid rl cont tm tu)) = index_file m"
  using assms strip_blank[of cont]
  by (auto simp add: add_message_def Let_def stored_messages_def get_messages_def
        split: option.splits)

text \<open>
  Claim C7, as the code has it. For an id in the store and a content that is neither
  empty nor whitespace-only: an append that repeats the role and content of the last
  stored message returns true and leaves the message list as it is; any other append
  returns true, puts the message with the clock reading as timestamp at the end and sets
  \<open>updated_at\<close>; and the same append made a second time returns true and changes no
  message.
\<close>

theorem add_message_consecutive_duplicates:
  assumes "conversations m cid = Some c" and "\<not> blank cont"
  shows "(repeats_last (get_messages c) rl cont \<longrightarrow>
            fst (add_message m cid rl cont tm tu) \<and>
            stored_messages (snd (add_message m cid rl cont tm tu)) cid = get_messages c \<and>
            conversations (snd (add_message m cid rl cont tm tu)) cid =
              Some (c\<lparr>messages := Some (get_messages c)\<rparr>)) \<and>
         (\<not> repeats_last (get_messages c) rl cont \<longrightarrow>
            fst (add_message m cid rl cont tm tu) \<and>
            conversations (snd (add_message m cid rl cont tm tu)) cid =
              Some (c\<lparr>messages :=
                        Some (get_messages c @ [\<lparr>role = rl, content = cont, timestamp = tm\<rparr>]),
                      updated_at := tu\<rparr>)) \<and>
         fst (add_message (snd (add_message m cid rl cont tm tu)) cid rl cont tm2 tu2) \<and>
         stored_messages
           (snd (add_message (snd (add_message m cid rl cont tm tu)) cid rl cont tm2 tu2)) cid =
         stored_messages (snd (add_message m cid rl cont tm tu)) cid"
proof -
  let ?dup = "repeats_last (get_messages c) rl cont"
  define m1 where "m1 = snd (add_message m cid rl cont tm tu)"
  have ok: "fst (add_message m cid rl cont tm tu)"
    using add_message_duplicate[OF assms, of rl tm tu] add_message_fresh[OF assms, of rl tm tu]
    by (cases ?dup) simp_all
  have dup: "conversations m1 cid = Some (c\<lparr>messages := Some (get_messages c)\<rparr>)" if ?dup
    using add_message_duplicate[OF assms that, of tm tu] by (simp add: m1_def)
  have fresh: "conversations m1 cid =
      Some (c\<lparr>messages := Some (get_messages c @ [\<lparr>role = rl, content = cont, timestamp = tm\<rparr>]),
              updated_at := tu\<rparr>)"
    if "\<not> ?dup"
    using add_message_fresh[OF assms that, of tm tu]
    by (simp add: m1_def save_conversations_index_def)
  have "\<exists>c1. conversations m1 cid = Some c1 \<and> repeats_last (get_messages c1) rl cont"
  proof (cases ?dup)
    case True
    then show ?thesis using dup by (simp add: get_messages_def repeats_last_def)
  next
    case False
    then show ?thesis using fresh by (simp add: get_messages_def repeats_last_def)
  qed
  then obtain c1 where c1: "conversations m1 cid = Some c1"
    and last1: "repeats_last (get_messages c1) rl cont"
    by blast
  have again: "fst (add_message m1 cid rl cont tm2 tu2) \<and>
      stored_messages (snd (add_message m1 cid rl cont tm2 tu2)) cid = stored_messages m1 cid"
    using add_message_duplicate[OF c1 assms(2) last1, of tm2 tu2]
    by (simp add: stored_messages_def c1 get_messages_def)
  have "stored_messages m1 cid = get_messages c" if ?dup
    using dup[OF that] by (simp add: stored_messages_def get_messages_def)
  then show ?thesis
    using ok dup fresh again unfolding m1_def by blast
qed

theorem add_message_consecutive_duplicates_witness:
  "conversations (demo_manager []) demo_id = Some (demo_conversation []) \<and>
   \<not> blank (ascii ''hi'') \<and>
   \<not> repeats_last (get_messages (demo_conversation [])) user (ascii ''hi'') \<and>
   fst (add_message (demo_manager []) demo_id user (ascii ''hi'') demo_time later_time) \<and>
   stored_messages
     (snd (add_message (demo_manager []) demo_id user (ascii ''hi'') demo_time later_time))
     demo_id = [user_says ''hi''] \<and>
   stored_messages
     (snd (add_message
        (snd (add_message (demo_manager []) demo_id user (ascii ''hi'') demo_time later_time))
        demo_id user (ascii ''hi'') later_time later_time))
     demo_id = [user_says ''hi'']"
proof -
  have present: "conversations (demo_manager []) demo_id = Some (demo_conversation [])"
    by (simp add: demo_manager_def)
  have filled: "\<not> blank (ascii ''hi'')"
    by (simp add: blank_def ascii_def isspace_def)
  have fresh: "\<not> repeats_last (get_messages (demo_conversation [])) user (ascii ''hi'')"
    by (simp add: repeats_last_def get_messages_def demo_conversation_def)
  from add_message_consecutive_duplicates [OF present filled,
      of user demo_time later_time later_time later_time] fresh
  show ?thesis
    using present filled
    by (simp add: stored_messages_def get_messages_def demo_conversation_def user_says_def)
qed

text \<open>
  The claim as written asks only for a non-empty content. A single space is not empty,
  repeats nothing in an empty conversation, and is refused: the call returns false and
  nothing is stored.
\<close>

theorem add_message_whitespace_counterexample:
  "[32] \<noteq> ([] :: pystr) \<and>
   conversations (demo_manager []) demo_id = Some (demo_conversation []) \<and>
   \<not> repeats_last (get_messages (demo_conversation [])) user [32] \<and>
   \<not> fst (add_message (demo_manager []) demo_id user [32] later_time later_time) \<and>
   stored_messages
     (snd (add_message (demo_manager []) demo_id user [32] later_time later_time)) demo_id = []"
  by (simp add: demo_manager_def demo_conversation_def get_messages_def add_message_def Let_def
        strip_def strip_where_def isspace_def stored_messages_def repeats_last_def)

section \<open>Empty and whitespace-only content\<close>

text \<open>Appending keeps a conversation free of empty and whitespace-only messages.\<close>

lemma add_message_keeps_contents_filled:
  assumes "list_all (\<lambda>x. \<not> blank (content x)) (stored_messages m cid)"
  shows "list_all (\<lambda>x. \<not> blank (content x))
           (stored_messages (snd (add_message m cid2 rl cont tm tu)) cid)"
proof (cases "conversations m cid2")
  case None
  then show ?thesis
    using assms by (simp add: add_message_def)
next
  case (Some c)
  show ?thesis
  proof (cases "blank cont")
    case True
    then show ?thesis
      using assms strip_blank[of cont] Some
      by (auto simp add: add_message_def Let_def stored_messages_def get_messages_def
            split: option.splits)
  next
    case False
    then show ?thesis
      using assms strip_blank[of cont] Some
      by (auto simp add: add_message_def Let_def stored_messages_def get_messages_def
            save_conversations_index_def split: option.splits)
  qed
qed

text \<open>
  Claim C8, at the input where the code departs from it. \<open>update_last_message\<close> has no
  check of the content: given a single space, which the edit callback passes on since
  it is a true value, it overwrites the last stored message and writes the index file,
  so a whitespace-only message is persisted. Appending, by \<open>add_message_blank\<close>, never
  does that.
\<close>

theorem update_last_message_stores_whitespace:
  "stored_messages (demo_manager [user_says ''hi'']) demo_id = [user_says ''hi''] \<and>
   blank [32] \<and>
   fst (update_last_message (demo_manager [user_says ''hi'']) demo_id [32] later_time later_time) \<and>
   map content
     (stored_messages
        (snd (update_last_message (demo_manager [user_says ''hi'']) demo_id [32]
                later_time later_time)) demo_id) = [[32]] \<and>
   index_file
     (snd (update_last_message (demo_manager [user_says ''hi'']) demo_id [32]
             later_time later_time)) =
   conversations
     (snd (update_last_message (demo_manager [user_says ''hi'']) demo_id [32]
             later_time later_time))"
  by (simp add: demo_manager_def demo_conversation_def get_messages_def update_last_message_def
        Let_def blank_def isspace_def stored_messages_def save_conversations_index_def)

section \<open>Retry controller\<close>

declare retry_loop.simps [simp del]

lemma retry_loop_succeeds:
  "retry_count + k < max_retries \<Longrightarrow>
   (\<forall>i<k. \<exists>e. attempt (retry_count + i) = Inl e) \<Longrightarrow>
   attempt (retry_count + k) = Inr h \<Longrightarrow>
   retry_loop attempt retry_count made slept =
     \<lparr>outcome = Succeeded h, attempts = made + k + 1,
      sleeps = slept @ map (\<lambda>i. (retry_count + i + 1) * 2) [0..<k]\<rparr>"
proof (induction k arbitrary: retry_count made slept)
  case 0
  then show ?case by (simp add: retry_loop.simps)
next
  case (Suc k)
  from Suc.prems(2) obtain e where e: "attempt retry_count = Inl e"
    by (metis add.right_neutral zero_less_Suc)
  have lt: "Suc retry_count + k < max_retries"
    using Suc.prems(1) by simp
  have fails: "\<forall>i<k. \<exists>e. attempt (Suc retry_count + i) = Inl e"
    using Suc.prems(2) by (metis Suc_less_eq add_Suc_shift)
  have ok: "attempt (Suc retry_count + k) = Inr h"
    using Suc.prems(3) by simp
  have unfold: "retry_loop attempt retry_count made slept =
      retry_loop attempt (Suc retry_count) (made + 1) (slept @ [Suc retry_count * 2])"
    using Suc.prems(1) e by (subst retry_loop.simps) (simp add: Let_def)
  have shift: "map (\<lambda>i. (retry_count + i + 1) * 2) [0..<Suc k] =
      Suc retry_count * 2 # map (\<lambda>i. (Suc retry_count + i + 1) * 2) [0..<k]"
    by (simp add: upt_rec[of 0 "Suc k"] map_Suc_upt[symmetric] del: upt_Suc)
  show ?case
    unfolding unfold Suc.IH[OF lt fails ok] shift by simp
qed

lemma retry_loop_bound:
  "attempts (retry_loop attempt retry_count made slept) \<le> made + (max_retries - retry_count)"
proof (induction attempt retry_count made slept rule: retry_loop.induct)
  case (1 attempt retry_count made slept)
  show ?case
  proof (cases "retry_count < max_retries")
    case False
    then show ?thesis by (subst retry_loop.simps) simp
  next
    case True
    show ?thesis
    proof (cases "attempt retry_count")
      case (Inr h)
      with True show ?thesis by (subst retry_loop.simps) simp
    next
      case (Inl e)
      show ?thesis
      proof (cases "retry_count + 1 \<ge> max_retries")
        case True
        with Inl \<open>retry_count < max_retries\<close> show ?thesis
          by (subst retry_loop.simps) (simp add: Let_def)
      next
        case False
        with "1.IH"[OF True Inl refl False] Inl True show ?thesis
          by (subst retry_loop.simps) (simp add: Let_def)
      qed
    qed
  qed
qed

lemma retry_loop_step:
  "retry_count + 1 < max_retries \<Longrightarrow> attempt retry_count = Inl e \<Longrightarrow>
   retry_loop attempt retry_count made slept =
     retry_loop attempt (retry_count + 1) (made + 1) (slept @ [(retry_count + 1) * 2])"
  by (subst retry_loop.simps) (simp add: Let_def)

lemma retry_loop_last:
  "retry_count + 1 = max_retries \<Longrightarrow> attempt retry_count = Inl e \<Longrightarrow>
   retry_loop attempt retry_count made slept =
     \<lparr>outcome = Exhausted e, attempts = made + 1, sleeps = slept\<rparr>"
  by (subst retry_loop.simps) (simp add: Let_def)

lemma retry_loop_exhausted:
  assumes "attempt 0 = Inl e0" "attempt 1 = Inl e1" "attempt 2 = Inl e2"
  shows "retry_loop attempt 0 0 [] = \<lparr>outcome = Exhausted e2, attempts = 3, sleeps = [2, 4]\<rparr>"
proof -
  have "retry_loop attempt 0 0 [] = retry_loop attempt 1 1 [2]"
    using retry_loop_step[of 0 attempt e0 0 "[]"] assms(1) by (simp add: max_retries_def)
  also have "\<dots> = retry_loop attempt 2 2 [2, 4]"
    using retry_loop_step[of 1 attempt e1 1 "[2]"] assms(2) by (simp add: max_retries_def numeral_2_eq_2[symmetric])
  also have "\<dots> = \<lparr>outcome = Exhausted e2, attempts = 3, sleeps = [2, 4]\<rparr>"
    using retry_loop_last[of 2 attempt e2 2 "[2, 4]"] assms(3) by (simp add: max_retries_def)
  finally show ?thesis .
qed

lemma generate_response_counts:
  assumes "load_prompts env (ascii ''default'') = Some d"
  shows "attempts_made (generate_response env msg history m stream_mode model prompt_template) =
           attempts (retry_loop (\<lambda>n. create env n
              (build_request env d msg history stream_mode model prompt_template)) 0 0 []) \<and>
         backoff_sleeps (generate_response env msg history m stream_mode model prompt_template) =
           sleeps (retry_loop (\<lambda>n. create env n
              (build_request env d msg history stream_mode model prompt_template)) 0 0 [])"
  using assms
  by (simp add: generate_response_def Let_def split: prod.splits loop_exit.splits completion.splits)

lemma generate_response_bound:
  "attempts_made (generate_response env msg history m stream_mode model prompt_template) \<le> 3"
proof (cases "load_prompts env (ascii ''default'')")
  case None
  then show ?thesis by (simp add: generate_response_def Let_def split: prod.splits)
next
  case (Some d)
  show ?thesis
    using generate_response_counts[OF Some, of msg history m stream_mode model prompt_template]
      retry_loop_bound[of "\<lambda>n. create env n (build_request env d msg history stream_mode model prompt_template)" 0 0 "[]"]
    by (simp add: max_retries_def)
qed

text \<open>
  Claim C4. If the first \<open>k < 3\<close> attempts raise and attempt \<open>k + 1\<close> returns a handle,
  the loop ends with that handle after \<open>k + 1\<close> attempts and \<open>k\<close> sleeps, the \<open>i\<close>-th of
  \<open>2 * i\<close> seconds (2 after the first failure, 4 after the second), and so does
  \<open>generate_response\<close> when the default prompt exists; in no case are more than 3
  attempts made.
\<close>

theorem retry_controller_backoff:
  "(k < max_retries \<and> (\<forall>i<k. \<exists>e. attempt i = Inl e) \<and> attempt k = Inr h \<longrightarrow>
      retry_loop attempt 0 0 [] =
        \<lparr>outcome = Succeeded h, attempts = k + 1, sleeps = map (\<lambda>i. (i + 1) * 2) [0..<k]\<rparr>) \<and>
   attempts (retry_loop attempt 0 0 []) \<le> 3 \<and>
   (k < max_retries \<and> load_prompts env (ascii ''default'') \<noteq> None \<and>
    (\<forall>i<k. \<forall>r. \<exists>e. create env i r = Inl e) \<and> (\<forall>r. \<exists>s. create env k r = Inr s) \<longrightarrow>
      attempts_made (generate_response env msg history m stream_mode model prompt_template) = k + 1 \<and>
      backoff_sleeps (generate_response env msg history m stream_mode model prompt_template) =
        map (\<lambda>i. (i + 1) * 2) [0..<k]) \<and>
   attempts_made (generate_response env msg history m stream_mode model prompt_template) \<le> 3"
proof -
  have loop: "retry_loop a 0 0 [] =
        \<lparr>outcome = Succeeded x, attempts = k + 1, sleeps = map (\<lambda>i. (i + 1) * 2) [0..<k]\<rparr>"
    if "k < max_retries" "\<forall>i<k. \<exists>e. a i = Inl e" "a k = Inr x" for a :: "nat \<Rightarrow> pystr + 'b" and x
    using retry_loop_succeeds[of 0 k a x 0 "[]"] that by simp
  have bound: "attempts (retry_loop attempt 0 0 []) \<le> 3"
    using retry_loop_bound[of attempt 0 0 "[]"] by (simp add: max_retries_def)
  have whole: "attempts_made (generate_response env msg history m stream_mode model prompt_template) = k + 1 \<and>
      backoff_sleeps (generate_response env msg history m stream_mode model prompt_template) =
        map (\<lambda>i. (i + 1) * 2) [0..<k]"
    if k: "k < max_retries" and d: "load_prompts env (ascii ''default'') \<noteq> None"
      and f: "\<forall>i<k. \<forall>r. \<exists>e. create env i r = Inl e" and s: "\<forall>r. \<exists>s. create env k r = Inr s"
  proof -
    from d obtain dp where dp: "load_prompts env (ascii ''default'') = Some dp" by blast
    let ?req = "build_request env dp msg history stream_mode model prompt_template"
    from s obtain x where x: "create env k ?req = Inr x" by blast
    have "retry_loop (\<lambda>n. create env n ?req) 0 0 [] =
        \<lparr>outcome = Succeeded x, attempts = k + 1, sleeps = map (\<lambda>i. (i + 1) * 2) [0..<k]\<rparr>"
      using f x by (intro loop[OF k]) auto
    then show ?thesis
      using generate_response_counts[OF dp, of msg history m stream_mode model prompt_template]
      by simp
  qed
  show ?thesis
    using loop[of attempt h] bound whole generate_response_bound by blast
qed

theorem retry_controller_backoff_witness:
  "(2 :: nat) < max_retries \<and>
   flaky 2 [] 0 demo_request = Inl (ascii ''timeout'') \<and> flaky 2 [] 1 demo_request = Inl (ascii ''timeout'') \<and>
   flaky 2 [] 2 demo_request = Inr (Stream 0 []) \<and>
   load_prompts (demo_env 2 []) (ascii ''default'') \<noteq> None \<and>
   retry_loop (\<lambda>n. flaky 2 [] n demo_request) 0 0 [] =
     \<lparr>outcome = Succeeded (Stream 0 []), attempts = 3, sleeps = [2, 4]\<rparr> \<and>
   attempts_made (generate_response (demo_env 2 []) (ascii ''hi'') [] (demo_manager []) True
                    demo_model (ascii ''default'')) = 3 \<and>
   backoff_sleeps (generate_response (demo_env 2 []) (ascii ''hi'') [] (demo_manager []) True
                     demo_model (ascii ''default'')) = [2, 4]"
proof -
  have k: "(2 :: nat) < max_retries"
    by (simp add: max_retries_def)
  have prompts: "load_prompts (demo_env 2 []) (ascii ''default'') \<noteq> None"
    by (simp add: demo_env_def demo_prompts_def)
  have fails: "\<forall>i<2. \<forall>r. \<exists>e. create (demo_env 2 []) i r = Inl e"
    by (simp add: demo_env_def flaky_def)
  have works: "\<forall>r. \<exists>s. create (demo_env 2 []) 2 r = Inr s"
    by (simp add: demo_env_def flaky_def)
  have fails_loop:
    "\<forall>i<2. \<exists>e. flaky 2 [] i demo_request = Inl e"
    by (simp add: flaky_def)
  have works_loop:
    "flaky 2 [] 2 demo_request = Inr (Stream 0 [])"
    by (simp add: flaky_def)
  have list: "[0..<2] = [0, 1 :: nat]"
    by code_simp
  from retry_controller_backoff [of 2
      "\<lambda>n. flaky 2 [] n demo_request"
      "Stream 0 []" "demo_env 2 []" "ascii ''hi''" "[]" "demo_manager []" True demo_model
      "ascii ''default''"]
    k prompts fails works fails_loop works_loop
  show ?thesis
    by (simp add: list flaky_def)
qed

section \<open>Appending: what is kept\<close>

lemma add_message_current:
  "current_conversation_id (snd (add_message m cid rl cont tm tu)) = current_conversation_id m"
  by (simp add: add_message_def Let_def save_conversations_index_def split: option.splits)

lemma add_message_keeps_present:
  "conversations m cid \<noteq> None \<Longrightarrow>
   conversations (snd (add_message m cid2 rl cont tm tu)) cid \<noteq> None"
  by (auto simp add: add_message_def Let_def save_conversations_index_def split: option.splits)

lemma add_message_last:
  assumes "conversations m cid \<noteq> None" "\<not> blank cont"
  shows "stored_messages (snd (add_message m cid rl cont tm tu)) cid \<noteq> [] \<and>
         role (last (stored_messages (snd (add_message m cid rl cont tm tu)) cid)) = rl \<and>
         content (last (stored_messages (snd (add_message m cid rl cont tm tu)) cid)) = cont"
proof -
  from assms(1) obtain c where c: "conversations m cid = Some c" by blast
  show ?thesis
  proof (cases "repeats_last (get_messages c) rl cont")
    case True
    then show ?thesis
      using add_message_duplicate[OF c assms(2) True, of tm tu]
      by (simp add: stored_messages_def get_messages_def repeats_last_def)
  next
    case False
    then show ?thesis
      using add_message_fresh[OF c assms(2) False, of tm tu]
      by (simp add: stored_messages_def get_messages_def save_conversations_index_def)
  qed
qed

lemma final_error_msg_not_blank: "\<not> blank (final_error_msg e)"
  by (simp add: final_error_msg_def final_error_prefix_def blank_def isspace_def)

section \<open>Final snapshot\<close>

lemma final_content_of_snoc:
  "final_content_of (ys @ [sn]) = (if snd sn \<noteq> [] then snd sn else final_content_of ys)"
  by (simp add: final_content_of_def)

lemma final_content_of_Nil: "final_content_of [] = []"
  by (simp add: final_content_of_def)

lemma final_content_of_single:
  "final_content_of [sn] = (if snd sn \<noteq> [] then snd sn else [])"
  by (simp add: final_content_of_def)

lemma settled_reasoning:
  "settled ys s \<Longrightarrow> process_reasoning s d = (zs, s1) \<Longrightarrow> settled (ys @ zs) s1"
  by (auto simp: settled_def process_reasoning_def Let_def final_content_of_snoc
        final_content_of_single final_content_of_Nil split: option.splits)

lemma settled_content:
  "settled ys s \<Longrightarrow> process_content s d t = (zs, s1) \<Longrightarrow> settled (ys @ zs) s1"
  by (auto simp: settled_def process_content_def Let_def final_content_of_snoc
        final_content_of_single final_content_of_Nil split: option.splits if_splits)

lemma settled_chunk:
  "settled ys s \<Longrightarrow> process_chunk s e = (zs, s1) \<Longrightarrow> settled (ys @ zs) s1"
proof -
  assume inv: "settled ys s" and step: "process_chunk s e = (zs, s1)"
  obtain a sa where a: "process_reasoning s (fst e) = (a, sa)"
    by (cases "process_reasoning s (fst e)")
  obtain b sb where b: "process_content sa (fst e) (snd e) = (b, sb)"
    by (cases "process_content sa (fst e) (snd e)")
  from step a b have zs: "zs = a @ b" "s1 = sb"
    by (simp_all add: process_chunk_def)
  from settled_content[OF settled_reasoning[OF inv a] b] show ?thesis
    by (simp add: zs)
qed

lemma settled_loop:
  "settled ys s \<Longrightarrow> stream_loop s es = (zs, s1) \<Longrightarrow> settled (ys @ zs) s1"
proof (induction es arbitrary: ys s zs s1)
  case Nil
  then show ?case by simp
next
  case (Cons e es)
  obtain a sa where a: "process_chunk s e = (a, sa)" by (cases "process_chunk s e")
  obtain b sb where b: "stream_loop sa es = (b, sb)" by (cases "stream_loop sa es")
  from Cons.prems(2) a b have zs: "zs = a @ b" "s1 = sb" by simp_all
  from settled_chunk[OF Cons.prems(1) a] have "settled (ys @ a) sa" .
  from Cons.IH[OF this b] show ?case by (simp add: zs)
qed

lemma content_fragments_Cons:
  "content_fragments (e # es) =
     (case delta_content (fst e) of None \<Rightarrow> [] | Some c \<Rightarrow> [c]) @ content_fragments es"
  by (simp add: content_fragments_def List.map_filter_simps split: option.splits)

lemma reasoning_fragments_Cons:
  "reasoning_fragments (e # es) =
     (case reasoning_content (fst e) of None \<Rightarrow> [] | Some c \<Rightarrow> [c]) @ reasoning_fragments es"
  by (simp add: reasoning_fragments_def List.map_filter_simps split: option.splits)

lemma chunk_texts:
  "process_chunk s e = (zs, s1) \<Longrightarrow>
   full_response s1 = full_response s @ (case delta_content (fst e) of None \<Rightarrow> [] | Some c \<Rightarrow> c) \<and>
   reasoning s1 = reasoning s @ (case reasoning_content (fst e) of None \<Rightarrow> [] | Some c \<Rightarrow> c)"
  by (auto simp: process_chunk_def process_reasoning_def process_content_def Let_def
      split: option.splits if_splits prod.splits)

lemma loop_texts:
  "stream_loop s es = (zs, s1) \<Longrightarrow>
   full_response s1 = full_response s @ concat (content_fragments es) \<and>
   reasoning s1 = reasoning s @ concat (reasoning_fragments es)"
proof (induction es arbitrary: s zs s1)
  case Nil
  then show ?case by (simp add: content_fragments_def reasoning_fragments_def List.map_filter_simps)
next
  case (Cons e es)
  obtain a sa where a: "process_chunk s e = (a, sa)" by (cases "process_chunk s e")
  obtain b sb where b: "stream_loop sa es = (b, sb)" by (cases "stream_loop sa es")
  from Cons.prems a b have "s1 = sb" by simp
  with chunk_texts[OF a] Cons.IH[OF b] show ?case
    by (simp add: content_fragments_Cons reasoning_fragments_Cons split: option.splits)
qed

text \<open>
  Claim C1. For every finite stream, the content of the last snapshot yielded, when one
  is yielded, is the concatenation of all content fragments in arrival order, and so is
  the last non-empty content the consumer loop keeps (which is empty when nothing is
  yielded); the generator returns the concatenated reasoning and content; and when the
  buffer is not empty once the events are exhausted, the snapshots end with one more
  snapshot carrying the complete reasoning and content.
\<close>

theorem final_snapshot_is_concatenation:
  "(fst (process_stream_response t0 stream) \<noteq> [] \<longrightarrow>
      snd (last (fst (process_stream_response t0 stream))) = concat (content_fragments stream)) \<and>
   final_content_of (fst (process_stream_response t0 stream)) = concat (content_fragments stream) \<and>
   snd (process_stream_response t0 stream) =
     (concat (reasoning_fragments stream), concat (content_fragments stream)) \<and>
   (buffer (snd (stream_loop (initial_state t0) stream)) \<noteq> [] \<longrightarrow>
      fst (process_stream_response t0 stream) =
        fst (stream_loop (initial_state t0) stream) @
        [(concat (reasoning_fragments stream), concat (content_fragments stream))])"
proof -
  obtain ys s where run: "stream_loop (initial_state t0) stream = (ys, s)"
    by (cases "stream_loop (initial_state t0) stream")
  have init: "settled [] (initial_state t0)"
    by (simp add: settled_def initial_state_def final_content_of_Nil)
  from settled_loop[OF init run] have inv: "settled ys s" by simp
  from loop_texts[OF run] have texts:
    "full_response s = concat (content_fragments stream)"
    "reasoning s = concat (reasoning_fragments stream)"
    by (simp_all add: initial_state_def)
  have out: "process_stream_response t0 stream = (ys @ final_flush s, (reasoning s, full_response s))"
    by (simp add: process_stream_response_def run)
  show ?thesis
  proof (cases "buffer s = []")
    case True
    with inv texts show ?thesis
      by (auto simp: out run final_flush_def settled_def final_content_of_Nil)
  next
    case False
    with inv texts show ?thesis
      by (auto simp: out run final_flush_def settled_def final_content_of_snoc)
  qed
qed

theorem final_snapshot_is_concatenation_witness:
  "fst (process_stream_response 0 [fragment ''a.'' (1 / 100)]) \<noteq> [] \<and>
   buffer (snd (stream_loop (initial_state 0) [fragment ''a.'' (1 / 100)])) \<noteq> [] \<and>
   concat (content_fragments [fragment ''a.'' (1 / 100)]) = ascii ''a.'' \<and>
   snd (last (fst (process_stream_response 0 [fragment ''a.'' (1 / 100)]))) = ascii ''a.'' \<and>
   fst (process_stream_response 0 [fragment ''a.'' (1 / 100)]) = [([], ascii ''a.'')] \<and>
   fst (process_stream_response 0 spaced_stream) =
     [([], ascii ''H''), ([], ascii ''Hi''), ([], ascii ''Hi there.'')]"
proof -
  let ?quick = "[fragment ''a.'' (1 / 100)]"
  have loop: "stream_loop (initial_state 0) ?quick =
      ([], \<lparr>full_response = ascii ''a.'', reasoning = [], buffer = ascii ''a.'',
            last_yield_time = 0, char_count = 2\<rparr>)"
    by (simp add: fragment_def initial_state_def process_chunk_def process_reasoning_def
          process_content_def should_yield_def punctuation_def ascii_def Let_def)
  have out: "fst (process_stream_response 0 ?quick) = [([], ascii ''a.'')]"
    unfolding process_stream_response_def loop by (simp add: final_flush_def ascii_def)
  have frags: "concat (content_fragments ?quick) = ascii ''a.''"
    by (simp add: content_fragments_def fragment_def List.map_filter_def)
  have buffered: "buffer (snd (stream_loop (initial_state 0) ?quick)) \<noteq> []"
    unfolding loop by (simp add: ascii_def)
  have spaced: "fst (process_stream_response 0 spaced_stream) =
      [([], ascii ''H''), ([], ascii ''Hi''), ([], ascii ''Hi there.'')]"
    by (simp add: spaced_stream_def fragment_def process_stream_response_def initial_state_def
          process_chunk_def process_reasoning_def process_content_def should_yield_def
          punctuation_def ascii_def Let_def final_flush_def)
  from final_snapshot_is_concatenation [of 0 ?quick] out buffered
  have "snd (last (fst (process_stream_response 0 ?quick))) = concat (content_fragments ?quick)"
    by simp
  then show ?thesis
    using out frags buffered spaced by simp
qed

section \<open>Emission rule\<close>

lemma stream_loop_append:
  "stream_loop s (xs @ ys) =
     (fst (stream_loop s xs) @ fst (stream_loop (snd (stream_loop s xs)) ys),
      snd (stream_loop (snd (stream_loop s xs)) ys))"
  by (induction xs arbitrary: s) (simp_all add: split_beta Let_def)

lemma chunk_tracking:
  assumes "char_count s = length (buffer s)" "process_chunk s e = (zs, s1)"
  shows "char_count s1 = length (buffer s1) \<and>
         since_last_emission (last_yield_time s) (buffer s) (e # es) =
         since_last_emission (last_yield_time s1) (buffer s1) es"
  using assms
  by (auto simp: process_chunk_def process_reasoning_def process_content_def Let_def
        should_yield_def split: option.splits if_splits prod.splits)

lemma loop_tracking:
  "char_count s = length (buffer s) \<Longrightarrow> stream_loop s es = (zs, s1) \<Longrightarrow>
   char_count s1 = length (buffer s1) \<and>
   since_last_emission (last_yield_time s) (buffer s) es = (last_yield_time s1, buffer s1)"
proof (induction es arbitrary: s zs s1)
  case Nil
  then show ?case by simp
next
  case (Cons e es)
  obtain a sa where a: "process_chunk s e = (a, sa)" by (cases "process_chunk s e")
  obtain b sb where b: "stream_loop sa es = (b, sb)" by (cases "stream_loop sa es")
  from Cons.prems(2) a b have s1: "s1 = sb" by simp
  from chunk_tracking[OF Cons.prems(1) a, of es]
  have c: "char_count sa = length (buffer sa)"
    and step: "since_last_emission (last_yield_time s) (buffer s) (e # es) =
         since_last_emission (last_yield_time sa) (buffer sa) es"
    by simp_all
  from Cons.IH[OF c b] show ?case
    unfolding step s1 by simp
qed

text \<open>
  Claim C3, as the code has it. When a chunk with a content fragment is processed after
  any earlier events, the snapshots it adds are the reasoning snapshot, if the chunk
  carries reasoning, followed by one content snapshot exactly when 30 ms have passed
  since the last emission caused by a content fragment (or since the start), or the
  characters received since that emission, this fragment included, are five or more, or
  the fragment is one of the seven one-character strings of line 69; that snapshot
  carries all reasoning and content received so far.
\<close>

theorem emission_rule:
  assumes "delta_content d = Some c"
  shows "fst (stream_loop (initial_state t0) (pre @ [(d, t)])) =
     fst (stream_loop (initial_state t0) pre) @
     (case reasoning_content d of
        None \<Rightarrow> []
      | Some r \<Rightarrow> [(concat (reasoning_fragments pre) @ r, concat (content_fragments pre))]) @
     (if t - fst (since_last_emission t0 [] pre) \<ge> 3 / 100 \<or>
         length (snd (since_last_emission t0 [] pre)) + length c \<ge> 5 \<or>
         c \<in> set punctuation
      then [(concat (reasoning_fragments (pre @ [(d, t)])),
             concat (content_fragments (pre @ [(d, t)])))]
      else [])"
proof -
  obtain ys s where run: "stream_loop (initial_state t0) pre = (ys, s)"
    by (cases "stream_loop (initial_state t0) pre")
  from loop_texts[OF run] have texts:
    "full_response s = concat (content_fragments pre)"
    "reasoning s = concat (reasoning_fragments pre)"
    by (simp_all add: initial_state_def)
  from loop_tracking[OF _ run] have track:
    "char_count s = length (buffer s)"
    "since_last_emission t0 [] pre = (last_yield_time s, buffer s)"
    by (simp_all add: initial_state_def)
  have frags: "content_fragments (pre @ [(d, t)]) = content_fragments pre @ [c]"
    "reasoning_fragments (pre @ [(d, t)]) =
       reasoning_fragments pre @ (case reasoning_content d of None \<Rightarrow> [] | Some r \<Rightarrow> [r])"
    using assms
    by (simp_all add: content_fragments_def reasoning_fragments_def List.map_filter_def
          split: option.splits)
  show ?thesis
    using assms
    by (simp add: stream_loop_append run track texts frags process_chunk_def
          process_reasoning_def process_content_def should_yield_def Let_def
          split: option.splits)
qed

theorem emission_rule_witness:
  "delta_content (fst (fragment ''.'' (2 / 100))) = Some (ascii ''.'') \<and>
   since_last_emission 0 [] [fragment ''a'' (1 / 100)] = (0, ascii ''a'') \<and>
   ascii ''.'' \<in> set punctuation \<and>
   fst (stream_loop (initial_state 0) [fragment ''a'' (1 / 100), fragment ''.'' (2 / 100)]) =
     [([], ascii ''a.'')]"
proof -
  have c: "delta_content \<lparr>reasoning_content = None, delta_content = Some (ascii ''.'')\<rparr> =
      Some (ascii ''.'')"
    by simp
  have since: "since_last_emission 0 [] [fragment ''a'' (1 / 100)] = (0, ascii ''a'')"
    by (simp add: fragment_def punctuation_def ascii_def)
  have mark: "ascii ''.'' \<in> set punctuation"
    by (simp add: punctuation_def ascii_def)
  have before: "fst (stream_loop (initial_state 0) [fragment ''a'' (1 / 100)]) = []"
    by (simp add: fragment_def initial_state_def process_chunk_def process_reasoning_def
          process_content_def should_yield_def punctuation_def ascii_def Let_def)
  have frags: "concat (content_fragments [fragment ''a'' (1 / 100), fragment ''.'' (2 / 100)]) =
      ascii ''a.''"
    "concat (reasoning_fragments [fragment ''a'' (1 / 100), fragment ''.'' (2 / 100)]) = []"
    by (simp_all add: content_fragments_def reasoning_fragments_def fragment_def
          List.map_filter_def ascii_def)
  from emission_rule [OF c, of 0 "[fragment ''a'' (1 / 100)]" "2 / 100"]
  show ?thesis
    using since mark before frags by (simp add: fragment_def)
qed

text \<open>
  The claim as written lets a fragment that ends in a mark cause an emission. The
  fragment \<open>a.\<close>, arriving 10 ms after the start, ends in a full stop; it is two
  characters long and is not itself one of the seven strings, so the loop yields
  nothing for it, and the snapshot comes only from the final flush.
\<close>

theorem emission_rule_counterexample:
  "ends_with_punctuation (ascii ''a.'') \<and>
   fst (stream_loop (initial_state 0)
      [(\<lparr>reasoning_content = None, delta_content = Some (ascii ''a.'')\<rparr>, 1 / 100)]) = [] \<and>
   fst (process_stream_response 0
      [(\<lparr>reasoning_content = None, delta_content = Some (ascii ''a.'')\<rparr>, 1 / 100)]) = [([], ascii ''a.'')]"
  by (simp add: ends_with_punctuation_def punctuation_def ascii_def process_stream_response_def
        initial_state_def process_chunk_def process_reasoning_def process_content_def
        should_yield_def Let_def final_flush_def)

section \<open>Title generation on failure\<close>

lemma update_title_needs_two_messages:
  "length (stored_messages m cid) < 2 \<Longrightarrow> update_title_with_ai m cid model call = (False, m)"
  by (auto simp add: update_title_with_ai_def stored_messages_def Let_def split: option.splits)

lemma title_after_failed_request:
  "msgs \<noteq> [] \<Longrightarrow> (\<And>r. call r = Inl (e r)) \<Longrightarrow>
   generate_conversation_title msgs model call = new_conversation_title"
  by (simp add: generate_conversation_title_def Let_def)

text \<open>
  Claim C2, at the input where the code departs from it. The conversation has two
  messages and the title \<open>My chat\<close>, and the completion request raises.
  \<open>generate_conversation_title\<close> catches the exception itself and returns the default
  title, so \<open>update_title_with_ai\<close> never sees a failure: it returns true, replaces the
  title by the default one and writes the index file. With fewer than two messages the
  title is never touched (\<open>update_title_needs_two_messages\<close>).
\<close>

theorem title_reset_on_failed_request:
  "title (demo_conversation [user_says ''hi'', assistant_says ''hello'']) = ascii ''My chat'' \<and>
   ascii ''My chat'' \<noteq> new_conversation_title \<and>
   fst (update_title_with_ai (demo_manager [user_says ''hi'', assistant_says ''hello'']) demo_id
          demo_model always_failing) \<and>
   map_option title
     (conversations
        (snd (update_title_with_ai (demo_manager [user_says ''hi'', assistant_says ''hello''])
                demo_id demo_model always_failing)) demo_id) = Some new_conversation_title \<and>
   map_option title
     (index_file
        (snd (update_title_with_ai (demo_manager [user_says ''hi'', assistant_says ''hello''])
                demo_id demo_model always_failing)) demo_id) = Some new_conversation_title"
  by (simp add: update_title_with_ai_def demo_manager_def demo_conversation_def get_messages_def
        Let_def generate_conversation_title_def always_failing_def save_conversations_index_def
        new_conversation_title_def ascii_def)

section \<open>Store effects of the operations\<close>

lemma add_message_stored:
  "stored_messages (snd (add_message m cid2 rl cont tm tu)) cid =
     (if cid2 = cid \<and> conversations m cid \<noteq> None \<and> \<not> blank cont \<and>
         \<not> repeats_last (stored_messages m cid) rl cont
      then stored_messages m cid @ [\<lparr>role = rl, content = cont, timestamp = tm\<rparr>]
      else stored_messages m cid)"
  using strip_blank[of cont]
  by (auto simp add: add_message_def Let_def stored_messages_def get_messages_def
        repeats_last_def save_conversations_index_def split: option.splits)





lemma add_message_present_iff:
  "conversations (snd (add_message m cid2 rl cont tm tu)) cid \<noteq> None \<longleftrightarrow>
   conversations m cid \<noteq> None"
  by (auto simp add: add_message_def Let_def save_conversations_index_def split: option.splits)









section \<open>Exhausted attempts\<close>

lemma generate_response_exhausted:
  assumes d: "load_prompts env (ascii ''default'') = Some dp"
    and f: "\<And>n r. n < max_retries \<Longrightarrow> create env n r = Inl (errors n)"
  shows "generate_response env msg history m stream_mode model prompt_template =
     \<lparr>yields = [([], final_error_msg (errors 2))],
      stores_at_yield =
        [snd (add_message
                (snd (add_message (snd (ensure_conversation env m)) (fst (ensure_conversation env m))
                        user msg (now env 12) (now env 2)))
                (fst (ensure_conversation env m)) assistant (final_error_msg (errors 2))
                (now env 3) (now env 4))],
      manager_after =
        snd (add_message
               (snd (add_message (snd (ensure_conversation env m)) (fst (ensure_conversation env m))
                       user msg (now env 12) (now env 2)))
               (fst (ensure_conversation env m)) assistant (final_error_msg (errors 2))
               (now env 3) (now env 4)),
      attempts_made = 3, backoff_sleeps = [2, 4], raised = None\<rparr>"
proof -
  let ?req = "build_request env dp msg history stream_mode model prompt_template"
  have loop: "retry_loop (\<lambda>n. create env n ?req) 0 0 [] =
      \<lparr>outcome = Exhausted (errors 2), attempts = 3, sleeps = [2, 4]\<rparr>"
    by (rule retry_loop_exhausted[where ?e0.0 = "errors 0" and ?e1.0 = "errors 1"])
       (simp_all add: f max_retries_def)
  show ?thesis
    using d loop
    by (simp add: generate_response_def Let_def split_beta)
qed

lemma ensure_conversation_present:
  assumes "\<And>i. active_id m = Some i \<Longrightarrow> conversations m i \<noteq> None"
  shows "conversations (snd (ensure_conversation env m)) (fst (ensure_conversation env m)) \<noteq> None \<and>
         current_conversation_id (snd (ensure_conversation env m)) =
           Some (fst (ensure_conversation env m))"
proof (cases "active_id m")
  case None
  then show ?thesis
    by (simp add: ensure_conversation_def create_conversation_def Let_def
          save_conversations_index_def)
next
  case (Some i)
  then show ?thesis
    using assms[OF Some]
    by (auto simp add: ensure_conversation_def active_id_def split: option.splits if_splits)
qed

lemma final_error_msg_text:
  "final_error_msg e =
     [65, 80, 73, 35843, 29992, 26368, 32456, 22833, 36133, 58, 32] @ e @
     [10, 10, 21487, 33021, 30340, 35299, 20915, 26041, 26696, 58] @
     [10, 49, 46, 32, 26816, 26597, 32593, 32476, 36830, 25509] @
     [10, 50, 46, 32, 30830, 35748, 65, 80, 73, 23494, 38053, 26377, 25928] @
     [10, 51, 46, 32, 23581, 35797, 20351, 29992, 86, 80, 78] @
     [10, 52, 46, 32, 31245, 21518, 37325, 35797]"
  by (simp add: final_error_msg_def final_error_prefix_def solutions_header_def hint_network_def
        hint_api_key_def hint_vpn_def hint_retry_later_def)

text \<open>
  Claim C5, as the code has it. Let the default prompt exist, the active conversation
  (if one is set) be in the store, and all three attempts raise. Then
  \<open>generate_response\<close> makes three attempts with sleeps of 2 and 4 seconds and ends
  without an exception. It calls \<open>add_message\<close> on the current conversation with the
  assistant role and the error text, which is the fixed prefix, the text of the last
  exception, the header and the four numbered hints, and only then yields that text as
  its single tuple: the manager the caller sees at that yield is the final one. The
  call stores the message after the ones present, unless the last stored message is
  already that assistant message, in which case the list is left as it is; either way
  the last stored message of the current conversation is the assistant message with
  the error text.
\<close>

theorem exhausted_attempts_materialised:
  assumes d: "load_prompts env (ascii ''default'') = Some dp"
    and act: "\<And>i. active_id m = Some i \<Longrightarrow> conversations m i \<noteq> None"
    and f: "\<And>n r. n < max_retries \<Longrightarrow> create env n r = Inl (errors n)"
    and cid: "cid = fst (ensure_conversation env m)"
    and m1: "m1 = snd (add_message (snd (ensure_conversation env m)) cid user msg
                         (now env 12) (now env 2))"
    and E: "E = [65, 80, 73, 35843, 29992, 26368, 32456, 22833, 36133, 58, 32] @ errors 2 @
                [10, 10, 21487, 33021, 30340, 35299, 20915, 26041, 26696, 58] @
                [10, 49, 46, 32, 26816, 26597, 32593, 32476, 36830, 25509] @
                [10, 50, 46, 32, 30830, 35748, 65, 80, 73, 23494, 38053, 26377, 25928] @
                [10, 51, 46, 32, 23581, 35797, 20351, 29992, 86, 80, 78] @
                [10, 52, 46, 32, 31245, 21518, 37325, 35797]"
    and g: "g = generate_response env msg history m stream_mode model prompt_template"
  shows "raised g = None \<and> attempts_made g = 3 \<and> backoff_sleeps g = [2, 4] \<and>
         yields g = [([], E)] \<and> stores_at_yield g = [manager_after g] \<and>
         manager_after g = snd (add_message m1 cid assistant E (now env 3) (now env 4)) \<and>
         current_conversation_id (manager_after g) = Some cid \<and>
         stored_messages (manager_after g) cid =
           (if repeats_last (stored_messages m1 cid) assistant E then stored_messages m1 cid
            else stored_messages m1 cid @
                 [\<lparr>role = assistant, content = E, timestamp = now env 3\<rparr>]) \<and>
         stored_messages (manager_after g) cid \<noteq> [] \<and>
         role (last (stored_messages (manager_after g) cid)) = assistant \<and>
         content (last (stored_messages (manager_after g) cid)) = E"
proof -
  have error_text: "final_error_msg (errors 2) = E"
    unfolding E by (rule final_error_msg_text)
  have run: "g = \<lparr>yields = [([], E)],
      stores_at_yield = [snd (add_message m1 cid assistant E (now env 3) (now env 4))],
      manager_after = snd (add_message m1 cid assistant E (now env 3) (now env 4)),
      attempts_made = 3, backoff_sleeps = [2, 4], raised = None\<rparr>"
    using generate_response_exhausted[OF d f, of msg history m stream_mode model prompt_template]
    by (simp add: g error_text m1 cid)
  from ensure_conversation_present[OF act, of env]
  have start: "conversations (snd (ensure_conversation env m)) cid \<noteq> None"
    "current_conversation_id (snd (ensure_conversation env m)) = Some cid"
    by (simp_all add: cid)
  have present1: "conversations m1 cid \<noteq> None"
    using start(1) unfolding m1 by (rule add_message_keeps_present)
  have current1: "current_conversation_id m1 = Some cid"
    using start(2) unfolding m1 by (simp add: add_message_current)
  have filled: "\<not> blank E"
    using final_error_msg_not_blank[of "errors 2"] by (simp add: error_text)
  have stored: "stored_messages (snd (add_message m1 cid assistant E (now env 3) (now env 4))) cid =
      (if repeats_last (stored_messages m1 cid) assistant E then stored_messages m1 cid
       else stored_messages m1 cid @ [\<lparr>role = assistant, content = E, timestamp = now env 3\<rparr>])"
    using present1 filled by (simp add: add_message_stored)
  have current: "current_conversation_id
      (snd (add_message m1 cid assistant E (now env 3) (now env 4))) = Some cid"
    using current1 by (simp add: add_message_current)
  have last: "stored_messages (snd (add_message m1 cid assistant E (now env 3) (now env 4))) cid \<noteq> [] \<and>
      role (last (stored_messages (snd (add_message m1 cid assistant E (now env 3) (now env 4))) cid)) = assistant \<and>
      content (last (stored_messages (snd (add_message m1 cid assistant E (now env 3) (now env 4))) cid)) = E"
    by (rule add_message_last[OF present1 filled])
  show ?thesis
    unfolding run using stored current last by simp
qed

theorem exhausted_attempts_materialised_witness:
  "load_prompts (demo_env 3 []) (ascii ''default'') =
     Some \<lparr>system = ascii ''You are a helpful assistant.'', description = ascii ''default''\<rparr> \<and>
   active_id (demo_manager []) = Some demo_id \<and>
   conversations (demo_manager []) demo_id \<noteq> None \<and>
   create (demo_env 3 []) 0 demo_request = Inl (ascii ''timeout'') \<and>
   create (demo_env 3 []) 1 demo_request = Inl (ascii ''timeout'') \<and>
   create (demo_env 3 []) 2 demo_request = Inl (ascii ''timeout'') \<and>
   fst (ensure_conversation (demo_env 3 []) (demo_manager [])) = demo_id \<and>
   yields (generate_response (demo_env 3 []) (ascii ''hi'') [] (demo_manager []) True
             demo_model (ascii ''default'')) = [([], final_error_msg (ascii ''timeout''))] \<and>
   stores_at_yield (generate_response (demo_env 3 []) (ascii ''hi'') [] (demo_manager []) True
             demo_model (ascii ''default'')) =
     [manager_after (generate_response (demo_env 3 []) (ascii ''hi'') [] (demo_manager []) True
             demo_model (ascii ''default''))] \<and>
   stored_messages
     (manager_after (generate_response (demo_env 3 []) (ascii ''hi'') [] (demo_manager []) True
             demo_model (ascii ''default''))) demo_id =
     [\<lparr>role = user, content = ascii ''hi'', timestamp = later_time\<rparr>,
      \<lparr>role = assistant, content = final_error_msg (ascii ''timeout''),
       timestamp = later_time\<rparr>]"
proof -
  let ?env = "demo_env 3 []"
  let ?m = "demo_manager []"
  let ?g = "generate_response ?env (ascii ''hi'') [] ?m True demo_model (ascii ''default'')"
  let ?m1 = "snd (add_message (snd (ensure_conversation ?env ?m)) demo_id user (ascii ''hi'')
                    (now ?env 12) (now ?env 2))"
  have prompts: "load_prompts ?env (ascii ''default'') =
      Some \<lparr>system = ascii ''You are a helpful assistant.'', description = ascii ''default''\<rparr>"
    by (simp add: demo_env_def demo_prompts_def)
  have active: "active_id ?m = Some demo_id"
    by (simp add: active_id_def demo_manager_def demo_id_def ascii_def)
  have present: "conversations ?m demo_id \<noteq> None"
    by (simp add: demo_manager_def)
  have act: "conversations ?m i \<noteq> None" if "active_id ?m = Some i" for i
    using that active present by simp
  have fails: "create ?env n r = Inl (ascii ''timeout'')" if "n < max_retries" for n r
    using that by (simp add: demo_env_def flaky_def max_retries_def)
  have ensured: "ensure_conversation ?env ?m = (demo_id, ?m)"
    by (simp add: ensure_conversation_def active)
  have cid: "demo_id = fst (ensure_conversation ?env ?m)"
    by (simp add: ensured)
  have clock: "now ?env n = later_time" for n
    by (simp add: demo_env_def)
  have filled: "\<not> blank (ascii ''hi'')"
    by (simp add: blank_def ascii_def isspace_def)
  have stored0: "stored_messages ?m demo_id = []"
    by (simp add: demo_manager_def stored_messages_def get_messages_def demo_conversation_def)
  have stored1: "stored_messages ?m1 demo_id =
      [\<lparr>role = user, content = ascii ''hi'', timestamp = later_time\<rparr>]"
    using present filled
    by (simp add: ensured add_message_stored stored0 repeats_last_def clock)
  have fresh: "\<not> repeats_last (stored_messages ?m1 demo_id) assistant
      (final_error_msg (ascii ''timeout''))"
    using user_neq_assistant by (simp add: stored1 repeats_last_def)
  note main = exhausted_attempts_materialised [where errors = "\<lambda>n. ascii ''timeout''"
      and msg = "ascii ''hi''" and history = "[]" and stream_mode = True and model = demo_model
      and prompt_template = "ascii ''default''",
      OF prompts act fails cid refl final_error_msg_text refl]
  have shown: "yields ?g = [([], final_error_msg (ascii ''timeout''))]"
    by (rule main [THEN conjunct2, THEN conjunct2, THEN conjunct2, THEN conjunct1])
  have observed: "stores_at_yield ?g = [manager_after ?g]"
    by (rule main [THEN conjunct2, THEN conjunct2, THEN conjunct2, THEN conjunct2, THEN conjunct1])
  have "stored_messages (manager_after ?g) demo_id =
      (if repeats_last (stored_messages ?m1 demo_id) assistant (final_error_msg (ascii ''timeout''))
       then stored_messages ?m1 demo_id
       else stored_messages ?m1 demo_id @
            [\<lparr>role = assistant, content = final_error_msg (ascii ''timeout''),
              timestamp = now ?env 3\<rparr>])"
    by (rule main [THEN conjunct2, THEN conjunct2, THEN conjunct2, THEN conjunct2, THEN conjunct2, THEN conjunct2, THEN conjunct2, THEN conjunct1])
  then have kept: "stored_messages (manager_after ?g) demo_id =
      [\<lparr>role = user, content = ascii ''hi'', timestamp = later_time\<rparr>,
       \<lparr>role = assistant, content = final_error_msg (ascii ''timeout''),
        timestamp = later_time\<rparr>]"
    using fresh unfolding stored1 by (simp add: clock)
  have calls: "create ?env 0 demo_request = Inl (ascii ''timeout'')"
    "create ?env 1 demo_request = Inl (ascii ''timeout'')"
    "create ?env 2 demo_request = Inl (ascii ''timeout'')"
    by (simp_all add: fails max_retries_def)
  show ?thesis
    using prompts active present calls ensured shown observed kept by simp
qed

text \<open>
  The claim as written says the message is appended. Here the conversation already
  ends with the error text of an earlier failed turn and the new message is a single
  space, which is not stored; all three attempts time out, the error text is the same,
  and \<open>add_message\<close> takes it for a repetition of the last message: nothing is appended.
\<close>

theorem exhausted_attempts_not_appended_counterexample:
  "load_prompts (demo_env 3 []) (ascii ''default'') \<noteq> None \<and>
   active_id failed_store = Some demo_id \<and>
   conversations failed_store demo_id \<noteq> None \<and>
   create (demo_env 3 []) 0 demo_request = Inl (ascii ''timeout'') \<and>
   create (demo_env 3 []) 1 demo_request = Inl (ascii ''timeout'') \<and>
   create (demo_env 3 []) 2 demo_request = Inl (ascii ''timeout'') \<and>
   length (stored_messages failed_store demo_id) = 2 \<and>
   attempts_made (generate_response (demo_env 3 []) [32] [] failed_store True demo_model
                    (ascii ''default'')) = 3 \<and>
   yields (generate_response (demo_env 3 []) [32] [] failed_store True demo_model
             (ascii ''default'')) = [([], final_error_msg (ascii ''timeout''))] \<and>
   stored_messages
     (manager_after (generate_response (demo_env 3 []) [32] [] failed_store True demo_model
                       (ascii ''default''))) demo_id = stored_messages failed_store demo_id"
proof -
  let ?env = "demo_env 3 []"
  let ?E = "final_error_msg (ascii ''timeout'')"
  have prompts: "load_prompts ?env (ascii ''default'') =
      Some \<lparr>system = ascii ''You are a helpful assistant.'', description = ascii ''default''\<rparr>"
    by (simp add: demo_env_def demo_prompts_def)
  have active: "active_id failed_store = Some demo_id"
    by (simp add: active_id_def failed_store_def demo_manager_def demo_id_def ascii_def)
  have present: "conversations failed_store demo_id \<noteq> None"
    by (simp add: failed_store_def demo_manager_def)
  have fails: "create ?env n r = Inl (ascii ''timeout'')" if "n < max_retries" for n r
    using that by (simp add: demo_env_def flaky_def max_retries_def)
  have ensured: "ensure_conversation ?env failed_store = (demo_id, failed_store)"
    by (simp add: ensure_conversation_def active)
  have stored: "stored_messages failed_store demo_id =
      [user_says ''hi'', \<lparr>role = assistant, content = ?E, timestamp = demo_time\<rparr>]"
    by (simp add: failed_store_def demo_manager_def stored_messages_def get_messages_def
          demo_conversation_def)
  have space: "blank [32]"
    by (simp add: blank_def isspace_def)
  have after_user: "stored_messages
      (snd (add_message failed_store demo_id user [32] (now ?env 12) (now ?env 2))) demo_id =
      stored_messages failed_store demo_id"
    using space by (simp add: add_message_stored)
  have after_error: "stored_messages
      (snd (add_message
              (snd (add_message failed_store demo_id user [32] (now ?env 12) (now ?env 2)))
              demo_id assistant ?E (now ?env 3) (now ?env 4))) demo_id =
      stored_messages failed_store demo_id"
    using add_message_keeps_present [OF present, of demo_id user "[32]" "now ?env 12" "now ?env 2"]
      final_error_msg_not_blank [of "ascii ''timeout''"] space
    by (simp add: add_message_stored stored repeats_last_def)
  have run: "generate_response ?env [32] [] failed_store True demo_model (ascii ''default'') =
      \<lparr>yields = [([], ?E)],
       stores_at_yield =
         [snd (add_message
                 (snd (add_message failed_store demo_id user [32] (now ?env 12) (now ?env 2)))
                 demo_id assistant ?E (now ?env 3) (now ?env 4))],
       manager_after =
         snd (add_message
                (snd (add_message failed_store demo_id user [32] (now ?env 12) (now ?env 2)))
                demo_id assistant ?E (now ?env 3) (now ?env 4)),
       attempts_made = 3, backoff_sleeps = [2, 4], raised = None\<rparr>"
    using generate_response_exhausted [OF prompts fails, of "[32]" "[]" failed_store True
        demo_model "ascii ''default''"]
    by (simp add: ensured)
  have calls: "create ?env 0 demo_request = Inl (ascii ''timeout'')"
    "create ?env 1 demo_request = Inl (ascii ''timeout'')"
    "create ?env 2 demo_request = Inl (ascii ''timeout'')"
    by (simp_all add: fails max_retries_def)
  have two: "length (stored_messages failed_store demo_id) = 2"
    by (simp add: stored)
  have unchanged: "stored_messages
      (manager_after (generate_response ?env [32] [] failed_store True demo_model
                        (ascii ''default''))) demo_id = stored_messages failed_store demo_id"
    unfolding run by (simp add: after_error)
  have made: "attempts_made (generate_response ?env [32] [] failed_store True demo_model
                    (ascii ''default'')) = 3"
    unfolding run by simp
  have shown: "yields (generate_response ?env [32] [] failed_store True demo_model
             (ascii ''default'')) = [([], ?E)]"
    unfolding run by simp
  show ?thesis
    using prompts active present calls two made shown unchanged by simp
qed

section \<open>Retry of the last message\<close>


lemma update_last_message_current:
  "current_conversation_id (snd (update_last_message m cid cont tm tu)) = current_conversation_id m"
  by (simp add: update_last_message_def Let_def save_conversations_index_def split: option.splits)










end
